theory Spec2Isabelle
  imports Main "HOL-Library.Word"
begin

unbundle bit_operations_syntax

section \<open>The barometric sensor driver \<^verbatim>\<open>readTemp.c\<close>\<close>

text \<open>
  The driver talks to a barometric sensor through the pigpio library, which exists for
  the Raspberry Pi only. The integer model is therefore the one of GCC on ARM Linux:
  \<^item> plain \<^verbatim>\<open>char\<close> is unsigned (a received byte is promoted to an \<^verbatim>\<open>int\<close> in 0..255);
  \<^item> \<^verbatim>\<open>int\<close> and \<^verbatim>\<open>unsigned\<close> have 32 bits, \<^verbatim>\<open>unsigned long long\<close> has 64;
  \<^item> \<^verbatim>\<open>unsigned long\<close> has 32 bits on the 32-bit system and 64 bits on the 64-bit
    system: both are kept, as a parameter of the one function that uses it;
  \<^item> signed products wrap around (two's complement), conversions between widths
    truncate, zero-extend (from unsigned) or sign-extend (from signed); the one signed
    subtraction, \<^verbatim>\<open>exp - 1\<close> in \<^verbatim>\<open>power\<close>, is treated there.
  A signed value is a word read with \<open>sint\<close>; \<open>div\<close> on words is the unsigned
  division, which is the one the C code performs wherever a divisor is written
  \<^verbatim>\<open>1U\<close>, \<^verbatim>\<open>1UL\<close> or \<^verbatim>\<open>1ULL\<close>.
\<close>

type_synonym u8 = "8 word"
type_synonym u16 = "16 word"
type_synonym u32 = "32 word"
type_synonym s32 = "32 word"
type_synonym u64 = "64 word"
type_synonym s64 = "64 word"

datatype abi = ILP32 | LP64

subsection \<open>Device protocol constants\<close>

definition CMD_RESET :: int where "CMD_RESET = 0x1E"
definition PROM_START :: int where "PROM_START = 0xA0"
definition PROM_STOP :: int where "PROM_STOP = 0xAE"
definition ADC_READ :: int where "ADC_READ = 0x00"
definition CONVERT_D1_OSR8192 :: int where "CONVERT_D1_OSR8192 = 0x4A"
definition CONVERT_D2_OSR8192 :: int where "CONVERT_D2_OSR8192 = 0x5A"

subsection \<open>Compensation arithmetic\<close>

text \<open>
  \<^verbatim>\<open>power\<close>: the recursion stops at \<^verbatim>\<open>exp == 0\<close> only, and it is not a tail
  recursion: every nested call holds a stack frame until the product is taken. The
  stack is finite: \<open>depth\<close> is the number of frames still free when the call is made,
  and a call that finds none ends the program (\<open>Stack_exhausted\<close>). Both arguments
  are 32-bit \<^verbatim>\<open>int\<close>s. The product wraps around, as the compiled multiplication does.
  \<^verbatim>\<open>exp - 1\<close> has no value in C when \<open>exp\<close> is the least \<^verbatim>\<open>int\<close>; compiled code that
  wraps there recurses on for \<open>2^31\<close> more frames, more than a stack holds: the
  call gives no result (\<open>Signed_overflow\<close>).
\<close>

datatype power_fault = Stack_exhausted | Signed_overflow

definition INT_MIN :: s32 where
  "INT_MIN = - (2 ^ 31)"

fun power_c :: "nat \<Rightarrow> s32 \<Rightarrow> s32 \<Rightarrow> power_fault + s32" where
  "power_c 0 base exp = Inl Stack_exhausted"
| "power_c (Suc depth) base exp =
     (if exp \<noteq> 0 then
        (if exp = INT_MIN then Inl Signed_overflow
         else case power_c depth base (exp - 1) of
                Inl f \<Rightarrow> Inl f
              | Inr r \<Rightarrow> Inr (base * r))
      else Inr 1)"

text \<open>
  \<^verbatim>\<open>calcTempDiff\<close>: \<^verbatim>\<open>rawTemp - refTemp * (1U << 8)\<close> is unsigned 32-bit arithmetic
  (the promoted \<^verbatim>\<open>refTemp\<close> is converted to \<^verbatim>\<open>unsigned\<close>); the result is stored in an
  \<^verbatim>\<open>int\<close>.
\<close>

definition calcTempDiff :: "u32 \<Rightarrow> u16 \<Rightarrow> s32" where
  "calcTempDiff rawTemp refTemp = rawTemp - ucast refTemp * push_bit 8 1"

text \<open>
  \<^verbatim>\<open>calcTemp\<close>: \<^verbatim>\<open>dTemp * proms[6]\<close> is an \<^verbatim>\<open>int\<close> product (32 bits). The division by
  \<^verbatim>\<open>1UL << 23\<close> and the addition of 2000 are done in \<^verbatim>\<open>unsigned long\<close>: the product is
  converted to it (kept as it is with 32 bits, sign-extended with 64), and the sum is
  truncated to the \<^verbatim>\<open>int32_t\<close> result. The two lines that would apply the second-order
  correction are commented out in the source and have no counterpart here.
\<close>

definition calcTemp :: "abi \<Rightarrow> s32 \<Rightarrow> u16 list \<Rightarrow> s32" where
  "calcTemp a rawTemp proms =
     (let dTemp = calcTempDiff rawTemp (proms ! 5);
          prod = dTemp * ucast (proms ! 6)
      in case a of
           ILP32 \<Rightarrow> 2000 + prod div push_bit 23 1
         | LP64 \<Rightarrow> ucast ((2000 :: u64) + (scast prod :: u64) div push_bit 23 1))"

text \<open>
  \<^verbatim>\<open>secondOrderTempComp\<close>: \<^verbatim>\<open>3 * power(dTemp, 2)\<close> is an \<^verbatim>\<open>int\<close> product; it is
  sign-extended to \<^verbatim>\<open>unsigned long long\<close> for the division, and the quotient is
  truncated to the \<^verbatim>\<open>int\<close> result. \<open>depth\<close> is the number of stack frames free for
  the call of \<^verbatim>\<open>power\<close>.
\<close>

definition secondOrderTempComp :: "nat \<Rightarrow> s32 \<Rightarrow> s32 \<Rightarrow> power_fault + s32" where
  "secondOrderTempComp depth temp dTemp =
     (if temp <s 2000 then
        (case power_c depth dTemp 2 of
           Inl f \<Rightarrow> Inl f
         | Inr p \<Rightarrow> Inr (ucast ((scast (3 * p) :: u64) div push_bit 32 1)))
      else
        (case power_c depth dTemp 2 of
           Inl f \<Rightarrow> Inl f
         | Inr p \<Rightarrow> Inr (ucast ((scast (5 * p) :: u64) div push_bit 38 1))))"

text \<open>
  \<^verbatim>\<open>calcPressOffsetAtTemp\<close>: \<^verbatim>\<open>pressOffset * (1U << 17)\<close> is an \<^verbatim>\<open>unsigned\<close> product,
  \<^verbatim>\<open>tempCoeffOfPressOffset * dTemp\<close> an \<^verbatim>\<open>int\<close> product that is converted to
  \<^verbatim>\<open>unsigned\<close> for the division by \<^verbatim>\<open>1U << 6\<close>; the \<^verbatim>\<open>unsigned\<close> sum is zero-extended
  to the \<^verbatim>\<open>int64_t\<close> result.
\<close>

definition calcPressOffsetAtTemp :: "s32 \<Rightarrow> u16 \<Rightarrow> u16 \<Rightarrow> s64" where
  "calcPressOffsetAtTemp dTemp pressOffset tempCoeffOfPressOffset =
     ucast ((ucast pressOffset * push_bit 17 1
             + (ucast tempCoeffOfPressOffset * dTemp) div push_bit 6 1) :: u32)"

subsection \<open>The bus\<close>

text \<open>
  The pigpio calls are not part of the program: they are a parameter. A \<open>device\<close>
  gives the return value of every call as a function of the calls made so far (the call
  being answered is the last event of the trace it is given). Return values and the
  file descriptor are C \<^verbatim>\<open>int\<close>s that the program only passes on or compares with 0
  and 3, so they are mathematical integers here.
\<close>

datatype event =
    GpioInitialise
  | I2cOpen int int int
  | I2cWriteByte int int
  | I2cReadDevice int int
  | Sleep int
  | Perror string

type_synonym trace = "event list"

record device =
  gpio_ret :: "trace \<Rightarrow> int"
  open_ret :: "trace \<Rightarrow> int"
  write_ret :: "trace \<Rightarrow> int"
  read_ret :: "trace \<Rightarrow> int \<times> u8 list"

text \<open>
  \<^verbatim>\<open>exit(EXIT_FAILURE)\<close> after \<^verbatim>\<open>perror(msg)\<close>: the program ends with that message
  (written here without the newline that ends it in the source).
\<close>

datatype failure = Exit_Failure string

definition gpioInitialise :: "device \<Rightarrow> trace \<Rightarrow> int \<times> trace" where
  "gpioInitialise dev tr = (let tr' = tr @ [GpioInitialise] in (gpio_ret dev tr', tr'))"

definition i2cOpen :: "device \<Rightarrow> int \<Rightarrow> int \<Rightarrow> int \<Rightarrow> trace \<Rightarrow> int \<times> trace" where
  "i2cOpen dev i2cBus i2cAddr i2cFlags tr =
     (let tr' = tr @ [I2cOpen i2cBus i2cAddr i2cFlags] in (open_ret dev tr', tr'))"

definition i2cWriteByte :: "device \<Rightarrow> int \<Rightarrow> int \<Rightarrow> trace \<Rightarrow> int \<times> trace" where
  "i2cWriteByte dev fd bVal tr =
     (let tr' = tr @ [I2cWriteByte fd bVal] in (write_ret dev tr', tr'))"

text \<open>
  \<^verbatim>\<open>i2cReadDevice(fd, buf, count)\<close> returns the number of bytes read or a negative error
  code. The bytes received, at most \<open>count\<close> of them, overwrite the beginning of
  \<open>buf\<close>; the rest of \<open>buf\<close> keeps what it held.
\<close>

definition i2cReadDevice ::
  "device \<Rightarrow> int \<Rightarrow> u8 list \<Rightarrow> int \<Rightarrow> trace \<Rightarrow> int \<times> u8 list \<times> trace" where
  "i2cReadDevice dev fd buf count tr =
     (let tr' = tr @ [I2cReadDevice fd count];
          (r, bytes) = read_ret dev tr';
          got = take (nat (min r count)) bytes
      in (r, got @ drop (length got) buf, tr'))"

definition sleep :: "int \<Rightarrow> trace \<Rightarrow> trace" where
  "sleep seconds tr = tr @ [Sleep seconds]"

definition perror :: "string \<Rightarrow> trace \<Rightarrow> trace" where
  "perror msg tr = tr @ [Perror msg]"

subsection \<open>The sequencer\<close>

text \<open>
  \<^verbatim>\<open>initGPIO\<close>: a failed initialisation or a failed open ends the program; a failed
  reset is only reported, and the descriptor is returned all the same.
\<close>

definition initGPIO :: "device \<Rightarrow> int \<Rightarrow> int \<Rightarrow> trace \<Rightarrow> failure + (int \<times> trace)" where
  "initGPIO dev i2cBus i2cAddr tr =
     (case gpioInitialise dev tr of (g, tr1) \<Rightarrow>
        if g < 0 then Inl (Exit_Failure ''Initialisation failed'')
        else case i2cOpen dev i2cBus i2cAddr 0 tr1 of (fd, tr2) \<Rightarrow>
          if fd < 0 then Inl (Exit_Failure ''Device failed to  open'')
          else case i2cWriteByte dev fd CMD_RESET tr2 of (w, tr3) \<Rightarrow>
            if w \<noteq> 0 then Inr (fd, perror ''Error sending reset---'' tr3)
            else Inr (fd, tr3))"

text \<open>
  The value stored for one PROM: \<^verbatim>\<open>(buf[0] << 8) | (buf[1])\<close>, an \<^verbatim>\<open>int\<close>, truncated to
  \<^verbatim>\<open>u_int16_t\<close>.
\<close>

definition prom_word :: "u8 list \<Rightarrow> u16" where
  "prom_word buf = ucast ((push_bit 8 (ucast (buf ! 0)) OR ucast (buf ! 1)) :: s32)"

text \<open>
  The loop of \<^verbatim>\<open>getCalibData\<close>, from the value \<open>i\<close> of its counter. The counter is an
  \<^verbatim>\<open>int\<close> that stays between \<^verbatim>\<open>PROM_START\<close> and \<^verbatim>\<open>PROM_STOP + 1\<close>, so nothing
  wraps and the index \<^verbatim>\<open>(i - PROM_START) / 2\<close> is never negative. \<open>buf\<close> is declared
  outside the loop: it keeps its bytes from one iteration to the next.
\<close>

function getCalibData_loop ::
  "device \<Rightarrow> int \<Rightarrow> int \<Rightarrow> u8 list \<Rightarrow> u16 list \<Rightarrow> trace \<Rightarrow> failure + (u16 list \<times> trace)" where
  "getCalibData_loop dev fd i buf proms tr =
     (if i < PROM_STOP then
        (case i2cWriteByte dev fd i tr of (w, tr1) \<Rightarrow>
           if w \<noteq> 0 then Inl (Exit_Failure ''Error writing PROM command!!'')
           else case i2cReadDevice dev fd buf 2 tr1 of (r, buf', tr2) \<Rightarrow>
             if r \<le> 0 then Inl (Exit_Failure ''Error reading from PROM'')
             else getCalibData_loop dev fd (i + 2) buf'
                    (proms[nat ((i - PROM_START) div 2) := prom_word buf']) tr2)
      else Inr (proms, tr))"
  by pat_completeness auto
termination
  by (relation "measure (\<lambda>(dev, fd, i, buf, proms, tr). nat (PROM_STOP - i))") auto

declare getCalibData_loop.simps [simp del]

text \<open>
  \<^verbatim>\<open>getCalibData\<close> fills the caller's array \<open>proms\<close>; its return value is always 0 and
  is left out.
\<close>

definition getCalibData :: "device \<Rightarrow> int \<Rightarrow> u16 list \<Rightarrow> trace \<Rightarrow> failure + (u16 list \<times> trace)" where
  "getCalibData dev fd proms tr = getCalibData_loop dev fd PROM_START [0, 0] proms tr"

text \<open>The raw sample as \<^verbatim>\<open>getRawTemp\<close> assembles it from its buffer.\<close>

definition assemble_temp :: "u8 list \<Rightarrow> u32" where
  "assemble_temp buf =
     push_bit 16 (ucast (buf ! 0)) OR push_bit 8 (ucast (buf ! 1)) OR ucast (buf ! 2)"

definition getRawTemp :: "device \<Rightarrow> int \<Rightarrow> trace \<Rightarrow> failure + (u32 \<times> trace)" where
  "getRawTemp dev fd tr =
     (case i2cWriteByte dev fd CONVERT_D2_OSR8192 tr of (w1, tr1) \<Rightarrow>
        if w1 \<noteq> 0 then Inl (Exit_Failure ''Error writing PROM command'')
        else case i2cWriteByte dev fd ADC_READ (sleep 1 tr1) of (w2, tr2) \<Rightarrow>
          if w2 \<noteq> 0 then Inl (Exit_Failure ''Error writing PROM command'')
          else case i2cReadDevice dev fd [0, 0, 0] 3 tr2 of (r, buf, tr3) \<Rightarrow>
            if r \<le> 0 then Inl (Exit_Failure ''Error reading from device'')
            else Inr (assemble_temp buf, sleep 1 tr3))"

text \<open>
  The raw sample as \<^verbatim>\<open>getRawPressure\<close> assembles it:
  \<^verbatim>\<open>(buf[0] << 16) | (buf[1] << 8) | (buf[0])\<close>.
\<close>

definition assemble_pressure :: "u8 list \<Rightarrow> u32" where
  "assemble_pressure buf =
     push_bit 16 (ucast (buf ! 0)) OR push_bit 8 (ucast (buf ! 1)) OR ucast (buf ! 0)"

definition getRawPressure :: "device \<Rightarrow> int \<Rightarrow> trace \<Rightarrow> failure + (u32 \<times> trace)" where
  "getRawPressure dev fd tr =
     (case i2cWriteByte dev fd CONVERT_D1_OSR8192 tr of (w1, tr1) \<Rightarrow>
        if w1 \<noteq> 0 then Inl (Exit_Failure ''Unable to write to device'')
        else case i2cWriteByte dev fd ADC_READ (sleep 1 tr1) of (w2, tr2) \<Rightarrow>
          if w2 \<noteq> 0 then Inl (Exit_Failure ''Unable to write to device'')
          else case i2cReadDevice dev fd [0, 0, 0] 3 tr2 of (r, buf, tr3) \<Rightarrow>
            if r \<le> 3 then Inl (Exit_Failure ''Unable to read from device'')
            else Inr (assemble_pressure buf, sleep 1 tr3))"

text \<open>
  \<^verbatim>\<open>getTemp\<close>: the array \<^verbatim>\<open>proms[8]\<close> is not initialised; \<open>proms0\<close> is what it holds
  when the function starts.
\<close>

definition getTemp :: "abi \<Rightarrow> device \<Rightarrow> u16 list \<Rightarrow> int \<Rightarrow> trace \<Rightarrow> failure + (s32 \<times> trace)" where
  "getTemp a dev proms0 fd tr =
     (case getRawTemp dev fd tr of
        Inl e \<Rightarrow> Inl e
      | Inr (rawTemp, tr1) \<Rightarrow>
          (case getCalibData dev fd proms0 tr1 of
             Inl e \<Rightarrow> Inl e
           | Inr (proms, tr2) \<Rightarrow> Inr (calcTemp a rawTemp proms, tr2)))"

subsection \<open>A sensor that answers every call\<close>

text \<open>
  A concrete device for the scenarios: every call succeeds, the PROM holds the words
  \<open>prom_image\<close>, and the converter returns the three bytes \<open>adc\<close>. A read of two
  bytes answers the PROM address written last.
\<close>

fun last_command :: "trace \<Rightarrow> int" where
  "last_command [] = 0"
| "last_command (I2cWriteByte fd b # tr) = b"
| "last_command (e # tr) = last_command tr"

definition word_bytes :: "u16 \<Rightarrow> u8 list" where
  "word_bytes w = [ucast (drop_bit 8 w), ucast w]"

definition sensor_read :: "u16 list \<Rightarrow> u8 list \<Rightarrow> trace \<Rightarrow> int \<times> u8 list" where
  "sensor_read prom_image adc tr =
     (let c = last_command (rev tr) in
      if c = ADC_READ then (3, adc)
      else (2, word_bytes (prom_image ! nat ((c - PROM_START) div 2))))"

definition sensor :: "u16 list \<Rightarrow> u8 list \<Rightarrow> device" where
  "sensor prom_image adc =
     \<lparr>gpio_ret = (\<lambda>tr. 0), open_ret = (\<lambda>tr. 3), write_ret = (\<lambda>tr. 0),
      read_ret = sensor_read prom_image adc\<rparr>"

definition scenario_prom :: "u16 list" where
  "scenario_prom = [0, 40127, 36924, 23317, 23282, 29024, 24926, 0]"

definition scenario_adc :: "u8 list" where
  "scenario_adc = [0x82, 0x3C, 0x00]"

text \<open>A sensor that answers every read with one byte only, whatever was asked for.\<close>

definition short_reader :: device where
  "short_reader =
     \<lparr>gpio_ret = (\<lambda>tr. 0), open_ret = (\<lambda>tr. 3), write_ret = (\<lambda>tr. 0),
      read_ret = (\<lambda>tr. (1, [0xAB]))\<rparr>"

text \<open>
  A sensor that answers the read of the first PROM address with two bytes and every
  other read with one byte only.
\<close>

definition stale_reader :: device where
  "stale_reader =
     \<lparr>gpio_ret = (\<lambda>tr. 0), open_ret = (\<lambda>tr. 3), write_ret = (\<lambda>tr. 0),
      read_ret = (\<lambda>tr. if last_command (rev tr) = PROM_START then (2, [0x12, 0x34])
                         else (1, [0xAB]))\<rparr>"

subsection \<open>Vocabulary of the statements\<close>

text \<open>
  One PROM transaction on the bus, and the values the counter of the loop
  \<^verbatim>\<open>for(int i = PROM_START; i < PROM_STOP; i = i + 2)\<close> takes from \<open>i\<close> on.
\<close>

definition prom_transaction :: "int \<Rightarrow> int \<Rightarrow> event list" where
  "prom_transaction fd a = [I2cWriteByte fd a, I2cReadDevice fd 2]"

function prom_addresses_from :: "int \<Rightarrow> int list" where
  "prom_addresses_from i = (if i < PROM_STOP then i # prom_addresses_from (i + 2) else [])"
  by pat_completeness auto
termination
  by (relation "measure (\<lambda>i. nat (PROM_STOP - i))") auto

declare prom_addresses_from.simps [simp del]

text \<open>
  The device answers a run of PROM transactions, started after the trace \<open>tr\<close>, well
  enough for \<^verbatim>\<open>getCalibData\<close>: every write returns 0 and every read a positive count.
\<close>

fun calib_replies_ok :: "device \<Rightarrow> int \<Rightarrow> trace \<Rightarrow> int list \<Rightarrow> bool" where
  "calib_replies_ok dev fd tr [] = True"
| "calib_replies_ok dev fd tr (a # as) =
     (write_ret dev (tr @ [I2cWriteByte fd a]) = 0
      \<and> 0 < fst (read_ret dev (tr @ prom_transaction fd a))
      \<and> calib_replies_ok dev fd (tr @ prom_transaction fd a) as)"

text \<open>
  What a run of PROM transactions, started after the trace \<open>tr\<close> with the buffer
  \<open>buf\<close>, stores, read off the answers of the device: the bytes a read delivers, two
  at most, replace the beginning of the two-byte buffer, the rest of the buffer is what
  the transaction before left there, and the word assembled from the buffer goes to the
  slot of the address.
\<close>

fun calib_stores :: "device \<Rightarrow> int \<Rightarrow> trace \<Rightarrow> u8 list \<Rightarrow> int list \<Rightarrow> (nat \<times> u16) list" where
  "calib_stores dev fd tr buf [] = []"
| "calib_stores dev fd tr buf (a # as) =
     (let bytes = snd (read_ret dev (tr @ prom_transaction fd a));
          r = fst (read_ret dev (tr @ prom_transaction fd a));
          got = take (nat (min r 2)) bytes;
          buf' = got @ drop (length got) buf
      in (nat ((a - PROM_START) div 2), prom_word buf')
         # calib_stores dev fd (tr @ prom_transaction fd a) buf' as)"

definition store_prom :: "nat \<times> u16 \<Rightarrow> u16 list \<Rightarrow> u16 list" where
  "store_prom kw proms = proms[fst kw := snd kw]"

text \<open>What a run that did not exit returned, and the bus trace it left.\<close>

definition value_of :: "failure + ('a \<times> trace) \<Rightarrow> 'a option" where
  "value_of res = (case res of Inl e \<Rightarrow> None | Inr (v, tr) \<Rightarrow> Some v)"

definition trace_of :: "failure + ('a \<times> trace) \<Rightarrow> trace option" where
  "trace_of res = (case res of Inl e \<Rightarrow> None | Inr (v, tr) \<Rightarrow> Some tr)"

text \<open>The events of a raw temperature acquisition up to its read.\<close>

definition temp_request :: "int \<Rightarrow> event list" where
  "temp_request fd =
     [I2cWriteByte fd CONVERT_D2_OSR8192, Sleep 1, I2cWriteByte fd ADC_READ,
      I2cReadDevice fd 3]"

text \<open>
  The formulas as the specification words them, over the integers: a quotient that
  truncates towards zero, the temperature, the second-order correction and the pressure
  offset.
\<close>

definition quot :: "int \<Rightarrow> int \<Rightarrow> int" where
  "quot a b = (if (a < 0) = (b < 0) then \<bar>a\<bar> div \<bar>b\<bar> else - (\<bar>a\<bar> div \<bar>b\<bar>))"

definition temperature_spec :: "int \<Rightarrow> int \<Rightarrow> int \<Rightarrow> int" where
  "temperature_spec rawTemp referenceTemp tempCoeffOfTemperature =
     2000 + quot ((rawTemp - referenceTemp * 2 ^ 8) * tempCoeffOfTemperature) (2 ^ 23)"

definition secondOrderTemperatureCorrection_spec :: "int \<Rightarrow> int \<Rightarrow> int" where
  "secondOrderTemperatureCorrection_spec temp dTemp =
     (if temp < 2000 then quot (3 * dTemp\<^sup>2) (2 ^ 32) else quot (5 * dTemp\<^sup>2) (2 ^ 38))"

definition pressureOffsetAtTemperature_spec :: "int \<Rightarrow> int \<Rightarrow> int \<Rightarrow> int" where
  "pressureOffsetAtTemperature_spec dTemp pressOffset tempCoeffOfPressOffset =
     pressOffset * 2 ^ 17 + quot (tempCoeffOfPressOffset * dTemp) (2 ^ 6)"

section \<open>Properties\<close>

subsection \<open>The helper \<^verbatim>\<open>power\<close>\<close>








lemma power_c_2: "power_c (depth + 3) d 2 = Inr (d * d)"
  by (simp add: INT_MIN_def numeral_3_eq_3)

lemma secondOrderTempComp_eq:
  "secondOrderTempComp (depth + 3) temp dTemp =
     Inr (if temp <s 2000
          then ucast ((scast (3 * (dTemp * dTemp)) :: u64) div push_bit 32 1)
          else ucast ((scast (5 * (dTemp * dTemp)) :: u64) div push_bit 38 1))"
  by (simp only: secondOrderTempComp_def power_c_2) simp



subsection \<open>Second-order correction\<close>

text \<open>
  C7, below the threshold at \<open>temp = 1500\<close> and \<open>dTemp = -168270\<close>: the formula
  gives \<open>3 * 168270^2 / 2^32 = 19\<close>; the code squares \<open>dTemp\<close> and multiplies by 3 in
  32 bits, gets a negative \<^verbatim>\<open>int\<close>, divides its 64-bit sign extension and returns -1.
  Above it, at \<open>temp = 2165\<close> and \<open>dTemp = 1089536\<close>, the formula gives 21 and the code
  67108863. At \<open>temp = 1999\<close> and \<open>dTemp = 65536\<close> the square wraps to 0: the formula
  gives 3 and the code 0.
\<close>

theorem secondOrderTempComp_overflow:
  "secondOrderTempComp (depth + 3) 1500 (- 168270) = Inr (- 1)
   \<and> secondOrderTemperatureCorrection_spec 1500 (- 168270) = 19
   \<and> secondOrderTempComp (depth + 3) 2165 1089536 = Inr 67108863
   \<and> secondOrderTemperatureCorrection_spec 2165 1089536 = 21
   \<and> secondOrderTempComp (depth + 3) 1999 65536 = Inr 0
   \<and> secondOrderTemperatureCorrection_spec 1999 65536 = 3"
proof -
  have "(if (1500 :: s32) <s 2000
          then ucast ((scast (3 * ((- 168270) * (- 168270)) :: s32) :: u64) div push_bit 32 1)
          else ucast ((scast (5 * ((- 168270) * (- 168270)) :: s32) :: u64) div push_bit 38 1))
        = (- 1 :: s32)"
    by code_simp
  moreover have "(if (2165 :: s32) <s 2000
          then ucast ((scast (3 * (1089536 * 1089536) :: s32) :: u64) div push_bit 32 1)
          else ucast ((scast (5 * (1089536 * 1089536) :: s32) :: u64) div push_bit 38 1))
        = (67108863 :: s32)"
    by code_simp
  moreover have "(if (1999 :: s32) <s 2000
          then ucast ((scast (3 * (65536 * 65536) :: s32) :: u64) div push_bit 32 1)
          else ucast ((scast (5 * (65536 * 65536) :: s32) :: u64) div push_bit 38 1))
        = (0 :: s32)"
    by code_simp
  moreover have "secondOrderTemperatureCorrection_spec 1500 (- 168270) = 19"
    "secondOrderTemperatureCorrection_spec 2165 1089536 = 21"
    "secondOrderTemperatureCorrection_spec 1999 65536 = 3"
    by code_simp+
  ultimately show ?thesis
    by (simp only: secondOrderTempComp_eq)
qed

subsection \<open>Pressure offset\<close>

text \<open>
  C9, at the data sheet's typical values \<open>dTemp = 2366\<close>, \<open>pressOffset = 36924\<close>,
  \<open>tempCoeffOfPressOffset = 23282\<close>: the formula gives 4840563234; the code multiplies
  \<open>pressOffset\<close> by \<open>2^17\<close> in 32 bits, which drops \<open>2^32\<close>, and returns 545595938.
\<close>

theorem calcPressOffsetAtTemp_wraps:
  "sint (calcPressOffsetAtTemp 2366 36924 23282) = 545595938
   \<and> pressureOffsetAtTemperature_spec 2366 36924 23282 = 4840563234"
  by code_simp

subsection \<open>Temperature\<close>

text \<open>
  C6, with \<open>referenceTemp = 29024\<close> and \<open>tempCoeffOfTemperature = 24926\<close>: the raw
  values 7516298 and 7602453 are 24-bit values in this order, and the temperature
  computed for the first, 2255, is above the one computed for the second, 2000, because
  the 32-bit product \<^verbatim>\<open>dTemp * proms[6]\<close> wraps in between. This holds for both
  widths of \<^verbatim>\<open>unsigned long\<close>.
\<close>

theorem calcTemp_not_monotonic:
  "(7516298 :: u32) \<le> 7602453 \<and> (7602453 :: u32) < 2 ^ 24
   \<and> scenario_prom ! 5 = 29024 \<and> scenario_prom ! 6 = 24926
   \<and> sint (calcTemp ILP32 7516298 scenario_prom) = 2255
   \<and> sint (calcTemp ILP32 7602453 scenario_prom) = 2000
   \<and> sint (calcTemp LP64 7516298 scenario_prom) = 2255
   \<and> sint (calcTemp LP64 7602453 scenario_prom) = 2000"
  by code_simp

text \<open>
  Where the product does not wrap and is not negative, \<^verbatim>\<open>calcTemp\<close> computes the
  first-order formula over the integers, for both widths of \<^verbatim>\<open>unsigned long\<close>.
\<close>

lemma product_word_of_int:
  "calcTempDiff rawTemp refTemp * ucast coeff
     = (word_of_int ((uint rawTemp - uint refTemp * 256) * uint coeff) :: s32)"
proof -
  have a: "(ucast refTemp :: s32) = word_of_int (uint refTemp)"
    by (rule ucast_eq)
  have b: "(ucast coeff :: s32) = word_of_int (uint coeff)"
    by (rule ucast_eq)
  have d: "(push_bit 8 1 :: s32) = word_of_int 256"
    by simp
  show ?thesis
    unfolding calcTempDiff_def a b d
    by (simp only: wi_hom_syms word_of_int_uint)
qed

lemma word_of_uint: "uint (w :: 'a :: len word) = k \<Longrightarrow> w = word_of_int k"
  using word_of_int_uint [of w] by simp

lemma sint_small: "0 \<le> k \<Longrightarrow> k < 2 ^ 31 \<Longrightarrow> sint (word_of_int k :: s32) = k"
  by (simp add: sint_sbintrunc' signed_take_bit_int_eq_self)

lemma uint_small32: "0 \<le> k \<Longrightarrow> k < 2 ^ 31 \<Longrightarrow> uint (word_of_int k :: s32) = k"
  by (simp add: uint_word_of_int)

lemma uint_small64: "0 \<le> k \<Longrightarrow> k < 2 ^ 31 \<Longrightarrow> uint (word_of_int k :: u64) = k"
  by (simp add: uint_word_of_int)

lemma quotient_small:
  fixes P :: int
  shows "0 \<le> P \<Longrightarrow> P < 2 ^ 31 \<Longrightarrow> 0 \<le> P div 2 ^ 23 \<and> 2000 + P div 2 ^ 23 < 2 ^ 31"
  by (simp add: div_int_pos_iff)

lemma div32:
  fixes P :: int
  assumes "0 \<le> P" and "P < 2 ^ 31"
  shows "(word_of_int P :: s32) div push_bit 23 1 = word_of_int (P div 2 ^ 23)"
proof -
  have "uint ((word_of_int P :: s32) div push_bit 23 1) = P div 2 ^ 23"
    using assms by (simp add: uint_div uint_small32)
  then show ?thesis
    by (rule word_of_uint)
qed

lemma div64:
  fixes P :: int
  assumes "0 \<le> P" and "P < 2 ^ 31"
  shows "scast (word_of_int P :: s32) div (push_bit 23 1 :: u64) = word_of_int (P div 2 ^ 23)"
proof -
  have "scast (word_of_int P :: s32) = (word_of_int P :: u64)"
    using assms by (simp only: scast_eq sint_small)
  then have "uint (scast (word_of_int P :: s32) div (push_bit 23 1 :: u64)) = P div 2 ^ 23"
    using assms by (simp add: uint_div uint_small64)
  then show ?thesis
    by (rule word_of_uint)
qed

lemma first_order_32:
  fixes P :: int
  assumes "0 \<le> P" and "P < 2 ^ 31"
  shows "sint (2000 + (word_of_int P :: s32) div push_bit 23 1) = 2000 + P div 2 ^ 23"
proof -
  have "2000 + (word_of_int P :: s32) div push_bit 23 1 = word_of_int (2000 + P div 2 ^ 23)"
    by (simp only: div32 [OF assms] wi_hom_syms word_of_int_numeral)
  moreover have "0 \<le> 2000 + P div 2 ^ 23" "2000 + P div 2 ^ 23 < 2 ^ 31"
    using quotient_small [OF assms] by simp_all
  ultimately show ?thesis
    by (simp only: sint_small)
qed

lemma first_order_64:
  fixes P :: int
  assumes "0 \<le> P" and "P < 2 ^ 31"
  shows "sint (ucast ((2000 :: u64) + scast (word_of_int P :: s32) div push_bit 23 1) :: s32)
           = 2000 + P div 2 ^ 23"
proof -
  have r: "0 \<le> 2000 + P div 2 ^ 23" "2000 + P div 2 ^ 23 < 2 ^ 31"
    using quotient_small [OF assms] by simp_all
  have "(2000 :: u64) + scast (word_of_int P :: s32) div push_bit 23 1
          = word_of_int (2000 + P div 2 ^ 23)"
    by (simp only: div64 [OF assms] wi_hom_syms word_of_int_numeral)
  then have "(ucast ((2000 :: u64) + scast (word_of_int P :: s32) div push_bit 23 1) :: s32)
          = word_of_int (uint (word_of_int (2000 + P div 2 ^ 23) :: u64))"
    by (simp only: ucast_eq)
  also have "\<dots> = word_of_int (2000 + P div 2 ^ 23)"
    by (simp only: uint_small64 [OF r])
  finally show ?thesis
    by (simp only: sint_small [OF r])
qed

lemma calcTemp_formula:
  "calcTemp ILP32 rawTemp proms =
     2000 + ((rawTemp - ucast (proms ! 5) * 256) * ucast (proms ! 6)) div 8388608"
  "calcTemp LP64 rawTemp proms =
     ucast ((2000 :: u64)
            + scast ((rawTemp - ucast (proms ! 5) * 256) * ucast (proms ! 6)) div 8388608)"
  by (simp_all add: calcTemp_def calcTempDiff_def)

lemma calcTemp_first_order:
  assumes "0 \<le> (uint rawTemp - uint (proms ! 5) * 256) * uint (proms ! 6)"
      and "(uint rawTemp - uint (proms ! 5) * 256) * uint (proms ! 6) < 2 ^ 31"
  shows "sint (calcTemp a rawTemp proms)
           = 2000 + ((uint rawTemp - uint (proms ! 5) * 256) * uint (proms ! 6)) div 2 ^ 23"
proof (cases a)
  case ILP32
  then have "calcTemp a rawTemp proms
      = 2000 + (word_of_int ((uint rawTemp - uint (proms ! 5) * 256) * uint (proms ! 6)) :: s32)
               div push_bit 23 1"
    by (simp only: calcTemp_def Let_def product_word_of_int abi.case)
  then show ?thesis
    by (simp only: first_order_32 [OF assms])
next
  case LP64
  then have "calcTemp a rawTemp proms
      = ucast ((2000 :: u64)
               + scast (word_of_int ((uint rawTemp - uint (proms ! 5) * 256) * uint (proms ! 6))
                         :: s32) div push_bit 23 1)"
    by (simp only: calcTemp_def Let_def product_word_of_int abi.case)
  then show ?thesis
    by (simp only: first_order_64 [OF assms])
qed

subsection \<open>Byte assembly\<close>

lemma prom_word_bytes: "prom_word (word_bytes w) = w"
  by (rule bit_word_eqI) (auto simp: prom_word_def word_bytes_def bit_simps)

lemma assemble_temp_bits:
  "bit (assemble_temp [b0, b1, b2]) n \<longleftrightarrow>
     (n < 8 \<and> bit b2 n) \<or> (8 \<le> n \<and> n < 16 \<and> bit b1 (n - 8)) \<or> (16 \<le> n \<and> n < 24 \<and> bit b0 (n - 16))"
  by (auto simp: assemble_temp_def bit_simps dest: bit_imp_le_length)


lemma assemble_temp_take_bit: "take_bit 24 (assemble_temp [b0, b1, b2]) = assemble_temp [b0, b1, b2]"
  by (rule bit_word_eqI) (auto simp: assemble_temp_bits bit_simps)

lemma assemble_temp_bound: "unat (assemble_temp [b0, b1, b2]) < 2 ^ 24"
proof -
  have "unat (take_bit 24 (assemble_temp [b0, b1, b2])) < 2 ^ 24"
    using take_bit_nat_less_exp [of 24 "unat (assemble_temp [b0, b1, b2])"]
    by (simp add: unsigned_take_bit_eq)
  then show ?thesis
    by (simp only: assemble_temp_take_bit)
qed


subsection \<open>The calibration loop\<close>

lemma prom_addresses: "prom_addresses_from PROM_START = [0xA0, 0xA2, 0xA4, 0xA6, 0xA8, 0xAA, 0xAC]"
  by (simp add: prom_addresses_from.simps PROM_START_def PROM_STOP_def)

lemma getCalibData_loop_trace:
  "getCalibData_loop dev fd i buf proms tr = Inr (ps, tr') \<Longrightarrow>
   tr' = tr @ concat (map (prom_transaction fd) (prom_addresses_from i)) \<and> length ps = length proms"
proof (induction dev fd i buf proms tr rule: getCalibData_loop.induct)
  case (1 dev fd i buf proms tr)
  show ?case
  proof (cases "i < PROM_STOP")
    case False
    with "1.prems" show ?thesis
      by (simp add: getCalibData_loop.simps [of dev fd i] prom_addresses_from.simps [of i])
  next
    case True
    obtain w tr1 where w: "i2cWriteByte dev fd i tr = (w, tr1)"
      by (cases "i2cWriteByte dev fd i tr")
    obtain r buf' tr2 where r: "i2cReadDevice dev fd buf 2 tr1 = (r, buf', tr2)"
      by (cases "i2cReadDevice dev fd buf 2 tr1")
    from "1.prems" True w r have ok: "w = 0" "0 < r"
      and rec: "getCalibData_loop dev fd (i + 2) buf'
                  (proms[nat ((i - PROM_START) div 2) := prom_word buf']) tr2 = Inr (ps, tr')"
      by (simp_all add: getCalibData_loop.simps [of dev fd i] split: if_splits)
    from w have tr1: "tr1 = tr @ [I2cWriteByte fd i]"
      by (simp add: i2cWriteByte_def Let_def)
    from r have tr2: "tr2 = tr1 @ [I2cReadDevice fd 2]"
      by (auto simp: i2cReadDevice_def Let_def split: prod.splits)
    from "1.IH" [OF True w [symmetric] _ r [symmetric] refl _ rec] ok
    have "tr' = tr2 @ concat (map (prom_transaction fd) (prom_addresses_from (i + 2)))
          \<and> length ps = length proms"
      by simp
    with True tr1 tr2 show ?thesis
      by (simp add: prom_addresses_from.simps [of i] prom_transaction_def [of fd i])
  qed
qed


lemma getCalibData_loop_keeps:
  "getCalibData_loop dev fd i buf proms tr = Inr (ps, tr') \<Longrightarrow> 7 \<le> k \<Longrightarrow> ps ! k = proms ! k"
proof (induction dev fd i buf proms tr rule: getCalibData_loop.induct)
  case (1 dev fd i buf proms tr)
  show ?case
  proof (cases "i < PROM_STOP")
    case False
    with "1.prems" show ?thesis
      by (simp add: getCalibData_loop.simps [of dev fd i])
  next
    case True
    obtain w tr1 where w: "i2cWriteByte dev fd i tr = (w, tr1)"
      by (cases "i2cWriteByte dev fd i tr")
    obtain r buf' tr2 where r: "i2cReadDevice dev fd buf 2 tr1 = (r, buf', tr2)"
      by (cases "i2cReadDevice dev fd buf 2 tr1")
    from "1.prems" True w r have ok: "w = 0" "0 < r"
      and rec: "getCalibData_loop dev fd (i + 2) buf'
                  (proms[nat ((i - PROM_START) div 2) := prom_word buf']) tr2 = Inr (ps, tr')"
      by (simp_all add: getCalibData_loop.simps [of dev fd i] split: if_splits)
    from "1.IH" [OF True w [symmetric] _ r [symmetric] refl _ rec "1.prems"(2)] ok
    have "ps ! k = (proms[nat ((i - PROM_START) div 2) := prom_word buf']) ! k"
      by simp
    moreover from True have "nat ((i - PROM_START) div 2) < 7"
      by (simp add: PROM_START_def PROM_STOP_def)
    ultimately show ?thesis
      using "1.prems"(2) by simp
  qed
qed

lemma getCalibData_loop_ok:
  "(\<exists>ps tr'. getCalibData_loop dev fd i buf proms tr = Inr (ps, tr'))
   \<longleftrightarrow> calib_replies_ok dev fd tr (prom_addresses_from i)"
proof (induction dev fd i buf proms tr rule: getCalibData_loop.induct)
  case (1 dev fd i buf proms tr)
  show ?case
  proof (cases "i < PROM_STOP")
    case False
    then show ?thesis
      by (simp add: getCalibData_loop.simps [of dev fd i] prom_addresses_from.simps [of i])
  next
    case True
    obtain w tr1 where w: "i2cWriteByte dev fd i tr = (w, tr1)"
      by (cases "i2cWriteByte dev fd i tr")
    obtain r buf' tr2 where r: "i2cReadDevice dev fd buf 2 tr1 = (r, buf', tr2)"
      by (cases "i2cReadDevice dev fd buf 2 tr1")
    from w have tr1: "tr1 = tr @ [I2cWriteByte fd i]" and wv: "w = write_ret dev (tr @ [I2cWriteByte fd i])"
      by (auto simp: i2cWriteByte_def Let_def)
    from r have tr2: "tr2 = tr1 @ [I2cReadDevice fd 2]" and rv: "r = fst (read_ret dev (tr1 @ [I2cReadDevice fd 2]))"
      by (auto simp: i2cReadDevice_def Let_def split: prod.splits)
    show ?thesis
    proof (cases "w = 0 \<and> 0 < r")
      case False
      with True w r wv rv tr1 show ?thesis
        by (auto simp: getCalibData_loop.simps [of dev fd i] prom_addresses_from.simps [of i]
              prom_transaction_def [of fd i])
    next
      case ok: True
      from "1.IH" [OF True w [symmetric] _ r [symmetric] refl] ok
      have "(\<exists>ps tr'. getCalibData_loop dev fd (i + 2) buf'
                (proms[nat ((i - PROM_START) div 2) := prom_word buf']) tr2 = Inr (ps, tr'))
            \<longleftrightarrow> calib_replies_ok dev fd tr2 (prom_addresses_from (i + 2))"
        by simp
      with True w r ok wv rv tr1 tr2 show ?thesis
        by (simp add: getCalibData_loop.simps [of dev fd i] prom_addresses_from.simps [of i]
              prom_transaction_def [of fd i])
    qed
  qed
qed

lemma word_bytes_take: "take 2 (word_bytes w) = word_bytes w" "length (word_bytes w) = 2"
  by (simp_all add: word_bytes_def)

lemma getCalibData_sensor:
  "getCalibData (sensor [c0, c1, c2, c3, c4, c5, c6, c7] adc) fd [p0, p1, p2, p3, p4, p5, p6, p7] tr
     = Inr ([c0, c1, c2, c3, c4, c5, c6, p7],
            tr @ concat (map (prom_transaction fd) [0xA0, 0xA2, 0xA4, 0xA6, 0xA8, 0xAA, 0xAC]))"
  by (simp add: getCalibData_def getCalibData_loop.simps i2cWriteByte_def i2cReadDevice_def
        sensor_def sensor_read_def prom_word_bytes prom_transaction_def word_bytes_take
        PROM_START_def PROM_STOP_def ADC_READ_def Let_def)

text \<open>
  C2, as the code has it. With the bounds \<^verbatim>\<open>0xA0\<close> and \<^verbatim>\<open>0xAE\<close> a calibration read
  that returns has made exactly 7 transactions, each a write of the address followed by
  a read of two bytes, at the addresses \<^verbatim>\<open>0xA0\<close> to \<^verbatim>\<open>0xAC\<close> in steps of 2, and no
  other bus call. It stores into the slots 0 to 6 of the array: the array keeps its
  length and everything from slot 7 on, and on a sensor that answers every call the
  slots 0 to 6 hold the 7 PROM words at these addresses afterwards.
\<close>

theorem getCalibData_transactions:
  assumes "getCalibData dev fd proms tr = Inr (ps, tr')"
  shows "tr' = tr @ concat (map (prom_transaction fd) [0xA0, 0xA2, 0xA4, 0xA6, 0xA8, 0xAA, 0xAC])
         \<and> length ps = length proms \<and> drop 7 ps = drop 7 proms
         \<and> getCalibData (sensor [c0, c1, c2, c3, c4, c5, c6, c7] adc) fd0
               [p0, p1, p2, p3, p4, p5, p6, p7] tr0
             = Inr ([c0, c1, c2, c3, c4, c5, c6, p7],
                    tr0 @ concat (map (prom_transaction fd0)
                                    [0xA0, 0xA2, 0xA4, 0xA6, 0xA8, 0xAA, 0xAC]))"
proof -
  from assms have loop: "getCalibData_loop dev fd PROM_START [0, 0] proms tr = Inr (ps, tr')"
    by (simp add: getCalibData_def)
  have len: "length ps = length proms"
    using getCalibData_loop_trace [OF loop] by simp
  have "drop 7 ps = drop 7 proms"
    by (rule nth_equalityI) (simp_all add: len getCalibData_loop_keeps [OF loop])
  with getCalibData_loop_trace [OF loop] show ?thesis
    by (simp add: prom_addresses getCalibData_sensor)
qed

theorem getCalibData_transactions_witness:
  "getCalibData (sensor scenario_prom scenario_adc) 3 [9, 9, 9, 9, 9, 9, 9, 9] []
     = Inr ([0, 40127, 36924, 23317, 23282, 29024, 24926, 9],
            [I2cWriteByte 3 0xA0, I2cReadDevice 3 2, I2cWriteByte 3 0xA2, I2cReadDevice 3 2,
             I2cWriteByte 3 0xA4, I2cReadDevice 3 2, I2cWriteByte 3 0xA6, I2cReadDevice 3 2,
             I2cWriteByte 3 0xA8, I2cReadDevice 3 2, I2cWriteByte 3 0xAA, I2cReadDevice 3 2,
             I2cWriteByte 3 0xAC, I2cReadDevice 3 2])
   \<and> drop 7 [0, 40127, 36924, 23317, 23282, 29024, 24926, 9 :: u16] = drop 7 [9, 9, 9, 9, 9, 9, 9, 9]"
proof -
  have run: "getCalibData (sensor scenario_prom scenario_adc) 3 [9, 9, 9, 9, 9, 9, 9, 9] []
     = Inr ([0, 40127, 36924, 23317, 23282, 29024, 24926, 9],
            [I2cWriteByte 3 0xA0, I2cReadDevice 3 2, I2cWriteByte 3 0xA2, I2cReadDevice 3 2,
             I2cWriteByte 3 0xA4, I2cReadDevice 3 2, I2cWriteByte 3 0xA6, I2cReadDevice 3 2,
             I2cWriteByte 3 0xA8, I2cReadDevice 3 2, I2cWriteByte 3 0xAA, I2cReadDevice 3 2,
             I2cWriteByte 3 0xAC, I2cReadDevice 3 2])"
    by code_simp
  from getCalibData_transactions [OF run] run show ?thesis
    by simp
qed

text \<open>
  C2 as stated fails: on a sensor that answers every call the calibration read makes 7
  transactions, the first one at \<^verbatim>\<open>0xA0\<close>, and stores 7 values.
\<close>

theorem getCalibData_seven_counterexample:
  "trace_of (getCalibData (sensor scenario_prom scenario_adc) 3 [9, 9, 9, 9, 9, 9, 9, 9] [])
     = Some [I2cWriteByte 3 0xA0, I2cReadDevice 3 2, I2cWriteByte 3 0xA2, I2cReadDevice 3 2,
             I2cWriteByte 3 0xA4, I2cReadDevice 3 2, I2cWriteByte 3 0xA6, I2cReadDevice 3 2,
             I2cWriteByte 3 0xA8, I2cReadDevice 3 2, I2cWriteByte 3 0xAA, I2cReadDevice 3 2,
             I2cWriteByte 3 0xAC, I2cReadDevice 3 2]
   \<and> value_of (getCalibData (sensor scenario_prom scenario_adc) 3 [9, 9, 9, 9, 9, 9, 9, 9] [])
     = Some [0, 40127, 36924, 23317, 23282, 29024, 24926, 9]"
  by code_simp

subsection \<open>The acquisition cycle\<close>

lemma value_of_SomeD: "value_of res = Some v \<Longrightarrow> \<exists>tr. res = Inr (v, tr)"
  by (auto simp: value_of_def split: sum.splits)

lemma getRawTemp_Inr:
  assumes "getRawTemp dev fd tr = Inr (raw, tr')"
  shows "tr' = tr @ temp_request fd @ [Sleep 1]"
  using assms
  by (auto simp: getRawTemp_def i2cWriteByte_def i2cReadDevice_def sleep_def temp_request_def
        Let_def split: if_splits prod.splits)

lemma initGPIO_Inr:
  assumes "initGPIO dev i2cBus i2cAddr tr = Inr (fd, tr')"
  shows "tr' = tr @ [GpioInitialise, I2cOpen i2cBus i2cAddr 0, I2cWriteByte fd CMD_RESET]
                @ (if write_ret dev (tr @ [GpioInitialise, I2cOpen i2cBus i2cAddr 0,
                                           I2cWriteByte fd CMD_RESET]) \<noteq> 0
                   then [Perror ''Error sending reset---''] else [])"
  using assms
  by (auto simp: initGPIO_def gpioInitialise_def i2cOpen_def i2cWriteByte_def perror_def
        Let_def split: if_splits prod.splits)

lemma getTemp_Inr:
  assumes "getTemp a dev proms0 fd tr = Inr (t, tr')"
  shows "\<exists>rawTemp tr1 proms.
           getRawTemp dev fd tr = Inr (rawTemp, tr1)
           \<and> getCalibData dev fd proms0 tr1 = Inr (proms, tr')
           \<and> t = calcTemp a rawTemp proms"
  using assms
  by (auto simp: getTemp_def split: sum.splits prod.splits)

text \<open>
  C8, as the code has it. \<^verbatim>\<open>initGPIO\<close> sends the reset; \<^verbatim>\<open>getTemp\<close>, given the
  descriptor, first triggers the temperature conversion, waits, asks for the result,
  reads three bytes and waits again, and only then reads the calibration constants. A
  cycle that returns has left exactly this trace (with the report of a failed reset, if
  the reset failed, after the reset).
\<close>

theorem acquisition_order:
  assumes "initGPIO dev i2cBus i2cAddr tr0 = Inr (fd, tr1)"
      and "getTemp a dev proms0 fd tr1 = Inr (t, tr2)"
  shows "tr2 = tr0 @ [GpioInitialise, I2cOpen i2cBus i2cAddr 0, I2cWriteByte fd CMD_RESET]
               @ (if write_ret dev (tr0 @ [GpioInitialise, I2cOpen i2cBus i2cAddr 0,
                                            I2cWriteByte fd CMD_RESET]) \<noteq> 0
                  then [Perror ''Error sending reset---''] else [])
               @ [I2cWriteByte fd CONVERT_D2_OSR8192, Sleep 1, I2cWriteByte fd ADC_READ,
                  I2cReadDevice fd 3, Sleep 1]
               @ concat (map (prom_transaction fd) [0xA0, 0xA2, 0xA4, 0xA6, 0xA8, 0xAA, 0xAC])"
proof -
  from getTemp_Inr [OF assms(2)] obtain rawTemp tr' proms where
    raw: "getRawTemp dev fd tr1 = Inr (rawTemp, tr')" and
    cal: "getCalibData dev fd proms0 tr' = Inr (proms, tr2)"
    by blast
  have "tr2 = tr' @ concat (map (prom_transaction fd) [0xA0, 0xA2, 0xA4, 0xA6, 0xA8, 0xAA, 0xAC])"
    using getCalibData_loop_trace [of dev fd PROM_START "[0, 0]" proms0 tr' proms tr2] cal
    by (simp add: getCalibData_def prom_addresses)
  moreover have "tr' = tr1 @ temp_request fd @ [Sleep 1]"
    by (rule getRawTemp_Inr [OF raw])
  ultimately show ?thesis
    by (simp add: initGPIO_Inr [OF assms(1)] temp_request_def)
qed

theorem acquisition_order_witness:
  "initGPIO (sensor scenario_prom scenario_adc) 1 0x77 [] =
     Inr (3, [GpioInitialise, I2cOpen 1 0x77 0, I2cWriteByte 3 0x1E])
   \<and> getTemp LP64 (sensor scenario_prom scenario_adc) [9, 9, 9, 9, 9, 9, 9, 9] 3
         [GpioInitialise, I2cOpen 1 0x77 0, I2cWriteByte 3 0x1E] =
     Inr (2211,
          [GpioInitialise, I2cOpen 1 0x77 0, I2cWriteByte 3 0x1E,
           I2cWriteByte 3 0x5A, Sleep 1, I2cWriteByte 3 0x00, I2cReadDevice 3 3, Sleep 1,
           I2cWriteByte 3 0xA0, I2cReadDevice 3 2, I2cWriteByte 3 0xA2, I2cReadDevice 3 2,
           I2cWriteByte 3 0xA4, I2cReadDevice 3 2, I2cWriteByte 3 0xA6, I2cReadDevice 3 2,
           I2cWriteByte 3 0xA8, I2cReadDevice 3 2, I2cWriteByte 3 0xAA, I2cReadDevice 3 2,
           I2cWriteByte 3 0xAC, I2cReadDevice 3 2])"
proof -
  have init: "initGPIO (sensor scenario_prom scenario_adc) 1 0x77 [] =
     Inr (3, [GpioInitialise, I2cOpen 1 0x77 0, I2cWriteByte 3 0x1E])"
    by code_simp
  have "value_of (getTemp LP64 (sensor scenario_prom scenario_adc) [9, 9, 9, 9, 9, 9, 9, 9] 3
         [GpioInitialise, I2cOpen 1 0x77 0, I2cWriteByte 3 0x1E]) = Some 2211"
    by code_simp
  then obtain tr where run: "getTemp LP64 (sensor scenario_prom scenario_adc)
         [9, 9, 9, 9, 9, 9, 9, 9] 3 [GpioInitialise, I2cOpen 1 0x77 0, I2cWriteByte 3 0x1E]
         = Inr (2211, tr)"
    by (blast dest: value_of_SomeD)
  from acquisition_order [OF init run]
  have "tr = [GpioInitialise, I2cOpen 1 0x77 0, I2cWriteByte 3 0x1E,
           I2cWriteByte 3 0x5A, Sleep 1, I2cWriteByte 3 0x00, I2cReadDevice 3 3, Sleep 1,
           I2cWriteByte 3 0xA0, I2cReadDevice 3 2, I2cWriteByte 3 0xA2, I2cReadDevice 3 2,
           I2cWriteByte 3 0xA4, I2cReadDevice 3 2, I2cWriteByte 3 0xA6, I2cReadDevice 3 2,
           I2cWriteByte 3 0xA8, I2cReadDevice 3 2, I2cWriteByte 3 0xAA, I2cReadDevice 3 2,
           I2cWriteByte 3 0xAC, I2cReadDevice 3 2]"
    by (simp add: sensor_def CMD_RESET_def CONVERT_D2_OSR8192_def ADC_READ_def
          prom_transaction_def)
  with init run show ?thesis
    by simp
qed

text \<open>
  C8 as stated fails in its last part: the conversion trigger \<^verbatim>\<open>0x5A\<close> and the read of
  the raw sample come before the first PROM address \<^verbatim>\<open>0xA0\<close>.
\<close>

theorem calibration_after_conversion_counterexample:
  "trace_of (getTemp LP64 (sensor scenario_prom scenario_adc) [9, 9, 9, 9, 9, 9, 9, 9] 3
       [GpioInitialise, I2cOpen 1 0x77 0, I2cWriteByte 3 0x1E]) =
     Some [GpioInitialise, I2cOpen 1 0x77 0, I2cWriteByte 3 0x1E,
           I2cWriteByte 3 0x5A, Sleep 1, I2cWriteByte 3 0x00, I2cReadDevice 3 3, Sleep 1,
           I2cWriteByte 3 0xA0, I2cReadDevice 3 2, I2cWriteByte 3 0xA2, I2cReadDevice 3 2,
           I2cWriteByte 3 0xA4, I2cReadDevice 3 2, I2cWriteByte 3 0xA6, I2cReadDevice 3 2,
           I2cWriteByte 3 0xA8, I2cReadDevice 3 2, I2cWriteByte 3 0xAA, I2cReadDevice 3 2,
           I2cWriteByte 3 0xAC, I2cReadDevice 3 2]"
  by code_simp

text \<open>
  C3, as the code has it. The temperature \<^verbatim>\<open>getTemp\<close> returns is the first-order
  value alone: 2000 plus the 32-bit product of \<open>dTemp = rawTemp - proms[5] * 256\<close> and
  \<^verbatim>\<open>proms[6]\<close>, divided by \<open>2^23\<close> as an \<^verbatim>\<open>unsigned long\<close>, for the raw sample and
  the calibration array just read. Nothing is subtracted from it. Where the product
  over the integers lies between 0 and \<open>2^31\<close>, this is \<open>2000 + dTemp * proms[6] /
  2^23\<close> over the integers.
\<close>

theorem getTemp_uncorrected:
  assumes "getTemp a dev proms0 fd tr = Inr (t, tr')"
  shows "\<exists>rawTemp tr1 proms.
           getRawTemp dev fd tr = Inr (rawTemp, tr1)
           \<and> getCalibData dev fd proms0 tr1 = Inr (proms, tr')
           \<and> t = (case a of
                    ILP32 \<Rightarrow>
                      2000 + ((rawTemp - ucast (proms ! 5) * 256) * ucast (proms ! 6))
                             div 8388608
                  | LP64 \<Rightarrow>
                      ucast ((2000 :: u64)
                             + scast ((rawTemp - ucast (proms ! 5) * 256) * ucast (proms ! 6))
                               div 8388608))
           \<and> (0 \<le> (uint rawTemp - uint (proms ! 5) * 256) * uint (proms ! 6)
                \<and> (uint rawTemp - uint (proms ! 5) * 256) * uint (proms ! 6) < 2 ^ 31 \<longrightarrow>
                sint t = 2000 + ((uint rawTemp - uint (proms ! 5) * 256) * uint (proms ! 6))
                                div 2 ^ 23)"
proof -
  from getTemp_Inr [OF assms] obtain rawTemp tr1 proms where
    raw: "getRawTemp dev fd tr = Inr (rawTemp, tr1)" and
    cal: "getCalibData dev fd proms0 tr1 = Inr (proms, tr')" and
    t: "t = calcTemp a rawTemp proms"
    by blast
  have "t = (case a of
               ILP32 \<Rightarrow>
                 2000 + ((rawTemp - ucast (proms ! 5) * 256) * ucast (proms ! 6)) div 8388608
             | LP64 \<Rightarrow>
                 ucast ((2000 :: u64)
                        + scast ((rawTemp - ucast (proms ! 5) * 256) * ucast (proms ! 6))
                          div 8388608))"
    by (cases a) (simp_all add: t calcTemp_formula)
  moreover have "0 \<le> (uint rawTemp - uint (proms ! 5) * 256) * uint (proms ! 6)
                \<and> (uint rawTemp - uint (proms ! 5) * 256) * uint (proms ! 6) < 2 ^ 31 \<longrightarrow>
                sint t = 2000 + ((uint rawTemp - uint (proms ! 5) * 256) * uint (proms ! 6))
                                div 2 ^ 23"
    unfolding t using calcTemp_first_order [of rawTemp proms a] by blast
  ultimately show ?thesis
    using raw cal by blast
qed

theorem getTemp_uncorrected_witness:
  "value_of (getTemp ILP32 (sensor scenario_prom [0x71, 0xE0, 0x00]) [9, 9, 9, 9, 9, 9, 9, 9] 3 [])
     = Some 2097
   \<and> value_of (getTemp LP64 (sensor scenario_prom [0x71, 0xE0, 0x00]) [9, 9, 9, 9, 9, 9, 9, 9] 3 [])
     = Some 2097
   \<and> (0 :: int) \<le> (7462912 - 29024 * 256) * 24926
   \<and> ((7462912 - 29024 * 256) * 24926 :: int) < 2 ^ 31
   \<and> sint (2097 :: s32) = 2000 + ((7462912 - 29024 * 256) * 24926) div 2 ^ 23"
proof -
  let ?dev = "sensor scenario_prom [0x71, 0xE0, 0x00]"
  let ?tr1 = "[I2cWriteByte 3 0x5A, Sleep 1, I2cWriteByte 3 0x00, I2cReadDevice 3 3, Sleep 1]"
  have v32: "value_of (getTemp ILP32 ?dev [9, 9, 9, 9, 9, 9, 9, 9] 3 []) = Some 2097"
    and v64: "value_of (getTemp LP64 ?dev [9, 9, 9, 9, 9, 9, 9, 9] 3 []) = Some 2097"
    by code_simp+
  have raw: "getRawTemp ?dev 3 [] = Inr (0x71E000, ?tr1)"
    by code_simp
  have cal: "value_of (getCalibData ?dev 3 [9, 9, 9, 9, 9, 9, 9, 9] ?tr1)
               = Some [0, 40127, 36924, 23317, 23282, 29024, 24926, 9]"
    by code_simp
  have formula: "sint (2097 :: s32) = 2000 + ((7462912 - 29024 * 256) * 24926) div 2 ^ 23"
    if v: "value_of (getTemp a ?dev [9, 9, 9, 9, 9, 9, 9, 9] 3 []) = Some 2097" for a
  proof -
    from value_of_SomeD [OF v] obtain tr' where
      run: "getTemp a ?dev [9, 9, 9, 9, 9, 9, 9, 9] 3 [] = Inr (2097, tr')"
      by blast
    from getTemp_uncorrected [OF run] obtain rawTemp tr1 proms where
      r: "getRawTemp ?dev 3 [] = Inr (rawTemp, tr1)" and
      c: "getCalibData ?dev 3 [9, 9, 9, 9, 9, 9, 9, 9] tr1 = Inr (proms, tr')" and
      f: "0 \<le> (uint rawTemp - uint (proms ! 5) * 256) * uint (proms ! 6)
            \<and> (uint rawTemp - uint (proms ! 5) * 256) * uint (proms ! 6) < 2 ^ 31 \<longrightarrow>
          sint (2097 :: s32)
            = 2000 + ((uint rawTemp - uint (proms ! 5) * 256) * uint (proms ! 6)) div 2 ^ 23"
      by blast
    from r raw have rawTemp: "rawTemp = 0x71E000" and tr1: "tr1 = ?tr1"
      by simp_all
    from c cal tr1 have proms: "proms = [0, 40127, 36924, 23317, 23282, 29024, 24926, 9]"
      by (simp add: value_of_def)
    from f show ?thesis
      unfolding rawTemp proms by simp
  qed
  from formula [OF v32] formula [OF v64] v32 v64 show ?thesis
    by simp
qed

text \<open>
  C3 as stated fails: for the raw bytes \<^verbatim>\<open>82 00 00\<close> the cycle returns 2165, while
  \<^verbatim>\<open>secondOrderTempComp\<close> gives the correction 67108863 for this temperature and its
  \<open>dTemp\<close>, so that the corrected value would be another one.
\<close>

theorem correction_not_applied_counterexample:
  "value_of (getTemp ILP32 (sensor scenario_prom [0x82, 0, 0]) [9, 9, 9, 9, 9, 9, 9, 9] 3 [])
     = Some 2165
   \<and> value_of (getTemp LP64 (sensor scenario_prom [0x82, 0, 0]) [9, 9, 9, 9, 9, 9, 9, 9] 3 [])
     = Some 2165
   \<and> calcTempDiff (assemble_temp [0x82, 0, 0]) (scenario_prom ! 5) = 1089536
   \<and> secondOrderTempComp 3 2165 1089536 = Inr 67108863
   \<and> (2165 :: s32) - 67108863 \<noteq> 2165"
  by code_simp

subsection \<open>Checks on the number of bytes read\<close>

lemma sum_not_Inl: "(\<exists>e. (res :: failure + 'a \<times> trace) = Inl e) \<longleftrightarrow> \<not> (\<exists>v tr. res = Inr (v, tr))"
  by (cases res) auto

lemma getRawPressure_rejects:
  assumes "fst (read_ret dev (tr @ [I2cWriteByte fd CONVERT_D1_OSR8192, Sleep 1,
                                     I2cWriteByte fd ADC_READ, I2cReadDevice fd 3])) \<le> 3"
  shows "\<exists>e. getRawPressure dev fd tr = Inl e"
  using assms
  by (auto simp: getRawPressure_def i2cWriteByte_def i2cReadDevice_def sleep_def Let_def
        split: prod.splits)



lemma store_prom_pair: "store_prom (k, w) proms = proms[k := w]"
  by (simp add: store_prom_def)

lemma getCalibData_loop_stores:
  "getCalibData_loop dev fd i buf proms tr = Inr (ps, tr') \<Longrightarrow>
   ps = fold store_prom (calib_stores dev fd tr buf (prom_addresses_from i)) proms"
proof (induction dev fd i buf proms tr rule: getCalibData_loop.induct)
  case (1 dev fd i buf proms tr)
  show ?case
  proof (cases "i < PROM_STOP")
    case False
    with "1.prems" show ?thesis
      by (simp add: getCalibData_loop.simps [of dev fd i] prom_addresses_from.simps [of i])
  next
    case True
    obtain w tr1 where w: "i2cWriteByte dev fd i tr = (w, tr1)"
      by (cases "i2cWriteByte dev fd i tr")
    obtain r buf' tr2 where r: "i2cReadDevice dev fd buf 2 tr1 = (r, buf', tr2)"
      by (cases "i2cReadDevice dev fd buf 2 tr1")
    from "1.prems" True w r have ok: "w = 0" "0 < r"
      and rec: "getCalibData_loop dev fd (i + 2) buf'
                  (proms[nat ((i - PROM_START) div 2) := prom_word buf']) tr2 = Inr (ps, tr')"
      by (simp_all add: getCalibData_loop.simps [of dev fd i] split: if_splits)
    from w have tr1: "tr1 = tr @ [I2cWriteByte fd i]"
      by (simp add: i2cWriteByte_def Let_def)
    from r tr1 have tr2: "tr2 = tr @ prom_transaction fd i"
      and buf': "buf' = take (nat (min (fst (read_ret dev (tr @ prom_transaction fd i))) 2))
                          (snd (read_ret dev (tr @ prom_transaction fd i)))
                        @ drop (length (take (nat (min (fst (read_ret dev
                                   (tr @ prom_transaction fd i))) 2))
                                 (snd (read_ret dev (tr @ prom_transaction fd i))))) buf"
      by (auto simp: i2cReadDevice_def Let_def prom_transaction_def [of fd i] split: prod.splits)
    from "1.IH" [OF True w [symmetric] _ r [symmetric] refl _ rec] ok
    have "ps = fold store_prom (calib_stores dev fd tr2 buf' (prom_addresses_from (i + 2)))
                 (proms[nat ((i - PROM_START) div 2) := prom_word buf'])"
      by simp
    moreover have "calib_stores dev fd tr buf (prom_addresses_from i) =
        (nat ((i - PROM_START) div 2), prom_word buf')
        # calib_stores dev fd tr2 buf' (prom_addresses_from (i + 2))"
      using True by (simp add: prom_addresses_from.simps [of i] Let_def tr2 buf')
    ultimately show ?thesis
      by (simp add: store_prom_pair)
  qed
qed

text \<open>
  C5, as the code has it, for the calibration read and the raw temperature
  acquisition. A read makes the operation exit exactly when it returns a count of 0 or
  less. A short read, with a positive count below the 2 or 3 bytes asked for, does not:
  the operation goes on with the bytes received, the rest of the buffer being what it
  was: zero in \<^verbatim>\<open>getRawTemp\<close>; in \<^verbatim>\<open>getCalibData\<close> zero or the byte the read before
  left there, since the buffer is not cleared between two transactions. A read of the
  full count does not make it exit either. For \<^verbatim>\<open>getRawTemp\<close> this is stated after two
  successful writes; for \<^verbatim>\<open>getCalibData\<close>, over its 7 transactions.
\<close>

theorem read_count_checks:
  assumes "write_ret dev (tr @ [I2cWriteByte fd CONVERT_D2_OSR8192]) = 0"
      and "write_ret dev (tr @ [I2cWriteByte fd CONVERT_D2_OSR8192, Sleep 1,
                                I2cWriteByte fd ADC_READ]) = 0"
      and "read_ret dev (tr @ temp_request fd) = (r, bytes)"
  shows "((\<exists>e. getRawTemp dev fd tr = Inl e) \<longleftrightarrow> r \<le> 0)
         \<and> (0 < r \<longrightarrow> getRawTemp dev fd tr =
               Inr (assemble_temp (take (nat (min r 3)) bytes
                                   @ drop (length (take (nat (min r 3)) bytes)) [0, 0, 0]),
                    tr @ temp_request fd @ [Sleep 1]))
         \<and> ((\<exists>e. getCalibData dev fd' proms tr' = Inl e) \<longleftrightarrow>
              \<not> calib_replies_ok dev fd' tr' [0xA0, 0xA2, 0xA4, 0xA6, 0xA8, 0xAA, 0xAC])
         \<and> (\<forall>ps tr''. getCalibData dev fd' proms tr' = Inr (ps, tr'') \<longrightarrow>
              ps = fold store_prom
                     (calib_stores dev fd' tr' [0, 0] [0xA0, 0xA2, 0xA4, 0xA6, 0xA8, 0xAA, 0xAC])
                     proms)"
proof -
  have temp: "getRawTemp dev fd tr =
      (if r \<le> 0 then Inl (Exit_Failure ''Error reading from device'')
       else Inr (assemble_temp (take (nat (min r 3)) bytes
                                   @ drop (length (take (nat (min r 3)) bytes)) [0, 0, 0]),
                    tr @ temp_request fd @ [Sleep 1]))"
    using assms
    by (simp add: getRawTemp_def i2cWriteByte_def i2cReadDevice_def sleep_def temp_request_def
          Let_def)
  have calib: "(\<exists>e. getCalibData dev fd' proms tr' = Inl e) \<longleftrightarrow>
              \<not> calib_replies_ok dev fd' tr' [0xA0, 0xA2, 0xA4, 0xA6, 0xA8, 0xAA, 0xAC]"
    unfolding sum_not_Inl getCalibData_def getCalibData_loop_ok prom_addresses ..
  have stores: "\<forall>ps tr''. getCalibData dev fd' proms tr' = Inr (ps, tr'') \<longrightarrow>
              ps = fold store_prom
                     (calib_stores dev fd' tr' [0, 0] [0xA0, 0xA2, 0xA4, 0xA6, 0xA8, 0xAA, 0xAC])
                     proms"
    using getCalibData_loop_stores [of dev fd' PROM_START "[0, 0]" proms tr']
    by (simp only: getCalibData_def prom_addresses) blast
  from temp have fails: "(\<exists>e. getRawTemp dev fd tr = Inl e) \<longleftrightarrow> r \<le> 0"
    and goes: "0 < r \<longrightarrow> getRawTemp dev fd tr =
               Inr (assemble_temp (take (nat (min r 3)) bytes
                                   @ drop (length (take (nat (min r 3)) bytes)) [0, 0, 0]),
                    tr @ temp_request fd @ [Sleep 1])"
    by simp_all
  from fails goes calib stores show ?thesis
    by blast
qed

theorem read_count_checks_witness:
  "write_ret stale_reader ([] @ [I2cWriteByte 3 CONVERT_D2_OSR8192]) = 0
   \<and> write_ret stale_reader ([] @ [I2cWriteByte 3 CONVERT_D2_OSR8192, Sleep 1,
                                    I2cWriteByte 3 ADC_READ]) = 0
   \<and> read_ret stale_reader ([] @ temp_request 3) = (1, [0xAB])
   \<and> \<not> (\<exists>e. getRawTemp stale_reader 3 [] = Inl e)
   \<and> getRawTemp stale_reader 3 [] =
       Inr (0xAB0000, [I2cWriteByte 3 0x5A, Sleep 1, I2cWriteByte 3 0, I2cReadDevice 3 3, Sleep 1])
   \<and> \<not> (\<exists>e. getCalibData stale_reader 3 [9, 9, 9, 9, 9, 9, 9, 9] [] = Inl e)
   \<and> value_of (getCalibData stale_reader 3 [9, 9, 9, 9, 9, 9, 9, 9] [])
       = Some [0x1234, 0xAB34, 0xAB34, 0xAB34, 0xAB34, 0xAB34, 0xAB34, 9]"
proof -
  have h1: "write_ret stale_reader ([] @ [I2cWriteByte 3 CONVERT_D2_OSR8192]) = 0"
    and h2: "write_ret stale_reader ([] @ [I2cWriteByte 3 CONVERT_D2_OSR8192, Sleep 1,
                                           I2cWriteByte 3 ADC_READ]) = 0"
    and h3: "read_ret stale_reader ([] @ temp_request 3) = (1, [0xAB])"
    by (simp_all add: stale_reader_def temp_request_def ADC_READ_def PROM_START_def)
  have ok: "calib_replies_ok stale_reader 3 [] [0xA0, 0xA2, 0xA4, 0xA6, 0xA8, 0xAA, 0xAC]"
    by (simp add: stale_reader_def)
  have asm: "assemble_temp [0xAB, 0, 0] = 0xAB0000"
    by code_simp
  have st: "fold store_prom
              (calib_stores stale_reader 3 [] [0, 0] [0xA0, 0xA2, 0xA4, 0xA6, 0xA8, 0xAA, 0xAC])
              [9, 9, 9, 9, 9, 9, 9, 9]
            = [0x1234, 0xAB34, 0xAB34, 0xAB34, 0xAB34, 0xAB34, 0xAB34, 9]"
    by code_simp
  note inst = read_count_checks [OF h1 h2 h3, of 3 "[9, 9, 9, 9, 9, 9, 9, 9]" "[]"]
  from inst ok have noexit: "\<not> (\<exists>e. getCalibData stale_reader 3 [9, 9, 9, 9, 9, 9, 9, 9] [] = Inl e)"
    by blast
  then obtain ps tr'' where run: "getCalibData stale_reader 3 [9, 9, 9, 9, 9, 9, 9, 9] [] = Inr (ps, tr'')"
    unfolding sum_not_Inl by blast
  with inst have "ps = fold store_prom
              (calib_stores stale_reader 3 [] [0, 0] [0xA0, 0xA2, 0xA4, 0xA6, 0xA8, 0xAA, 0xAC])
              [9, 9, 9, 9, 9, 9, 9, 9]"
    by blast
  then have ps: "ps = [0x1234, 0xAB34, 0xAB34, 0xAB34, 0xAB34, 0xAB34, 0xAB34, 9]"
    by (simp only: st)
  have val: "value_of (getCalibData stale_reader 3 [9, 9, 9, 9, 9, 9, 9, 9] [])
       = Some [0x1234, 0xAB34, 0xAB34, 0xAB34, 0xAB34, 0xAB34, 0xAB34, 9]"
    unfolding run ps by (simp add: value_of_def)
  from inst have "(0 :: int) < 1 \<longrightarrow> getRawTemp stale_reader 3 [] =
       Inr (assemble_temp (take (nat (min 1 3)) [0xAB]
                                   @ drop (length (take (nat (min 1 3)) [0xAB :: u8])) [0, 0, 0]),
                    [] @ temp_request 3 @ [Sleep 1])"
    by blast
  then have t: "getRawTemp stale_reader 3 [] =
       Inr (0xAB0000, [I2cWriteByte 3 0x5A, Sleep 1, I2cWriteByte 3 0, I2cReadDevice 3 3, Sleep 1])"
    by (simp add: asm temp_request_def CONVERT_D2_OSR8192_def ADC_READ_def)
  from h1 h2 h3 noexit val t show ?thesis
    by simp
qed

text \<open>
  C5 as stated fails: a sensor that delivers one byte per read lets the temperature
  acquisition return \<^verbatim>\<open>0xAB0000\<close> and the calibration read store \<^verbatim>\<open>0xAB00\<close> seven
  times; after a full first read \<^verbatim>\<open>12 34\<close> the short reads that follow store
  \<^verbatim>\<open>0xAB34\<close>, with the low byte of the first PROM; and the pressure acquisition exits
  on a read of all 3 bytes.
\<close>

theorem short_read_accepted_counterexample:
  "fst (read_ret short_reader [I2cWriteByte 3 0x5A, Sleep 1, I2cWriteByte 3 0, I2cReadDevice 3 3]) = 1
   \<and> value_of (getRawTemp short_reader 3 []) = Some 0xAB0000
   \<and> fst (read_ret short_reader [I2cWriteByte 3 0xA0, I2cReadDevice 3 2]) = 1
   \<and> value_of (getCalibData short_reader 3 [9, 9, 9, 9, 9, 9, 9, 9] [])
       = Some [0xAB00, 0xAB00, 0xAB00, 0xAB00, 0xAB00, 0xAB00, 0xAB00, 9]
   \<and> fst (read_ret stale_reader [I2cWriteByte 3 0xA0, I2cReadDevice 3 2]) = 2
   \<and> fst (read_ret stale_reader [I2cWriteByte 3 0xA0, I2cReadDevice 3 2,
                                   I2cWriteByte 3 0xA2, I2cReadDevice 3 2]) = 1
   \<and> value_of (getCalibData stale_reader 3 [9, 9, 9, 9, 9, 9, 9, 9] [])
       = Some [0x1234, 0xAB34, 0xAB34, 0xAB34, 0xAB34, 0xAB34, 0xAB34, 9]
   \<and> fst (read_ret (sensor scenario_prom scenario_adc)
             [I2cWriteByte 3 0x4A, Sleep 1, I2cWriteByte 3 0, I2cReadDevice 3 3]) = 3
   \<and> getRawPressure (sensor scenario_prom scenario_adc) 3 []
       = Inl (Exit_Failure ''Unable to read from device'')"
  by code_simp

text \<open>
  C4, at the bytes \<^verbatim>\<open>01 02 03\<close>. The temperature path assembles \<^verbatim>\<open>0x010203\<close>, as
  \<open>assemble_temp_bits\<close> and \<open>assemble_temp_bound\<close> show for all bytes. The pressure
  path puts the first byte in the lowest position as well, \<^verbatim>\<open>0x010201\<close>, and does not
  even get there: its check \<^verbatim>\<open><= 3\<close> exits on the full read (\<open>getRawPressure_rejects\<close>).
\<close>

theorem pressure_assembly_slip:
  "assemble_temp [0x01, 0x02, 0x03] = 0x010203
   \<and> assemble_pressure [0x01, 0x02, 0x03] = 0x010201
   \<and> read_ret (sensor scenario_prom [0x01, 0x02, 0x03])
         [I2cWriteByte 3 0x4A, Sleep 1, I2cWriteByte 3 0, I2cReadDevice 3 3] = (3, [0x01, 0x02, 0x03])
   \<and> getRawPressure (sensor scenario_prom [0x01, 0x02, 0x03]) 3 []
       = Inl (Exit_Failure ''Unable to read from device'')"
  by code_simp

subsection \<open>The scenario of the specification\<close>

text \<open>
  C1, at its input: the bytes \<^verbatim>\<open>82 3C 00\<close>, the reference temperature 29024 and the
  coefficient 24926. The raw value is \<^verbatim>\<open>0x823C00\<close>, that is 8535040, and the
  difference is \<open>8535040 - 29024 * 256 = 1104896\<close>. The formula gives
  \<open>2000 + 1104896 * 24926 / 2^23 = 5283\<close>. The code takes the product 27540637696 in
  32 bits, where it is 1770833920, and returns 2211, for both widths of
  \<^verbatim>\<open>unsigned long\<close>.
\<close>

theorem scenario_temperature_wraps:
  "scenario_adc = [0x82, 0x3C, 0x00]
   \<and> scenario_prom ! 5 = 29024 \<and> scenario_prom ! 6 = 24926
   \<and> value_of (getRawTemp (sensor scenario_prom scenario_adc) 3 []) = Some 0x823C00
   \<and> uint (0x823C00 :: u32) = 8535040
   \<and> sint (calcTempDiff 0x823C00 29024) = 1104896
   \<and> (1104896 * 24926 :: int) = 27540637696
   \<and> sint (calcTempDiff 0x823C00 29024 * 24926) = 1770833920
   \<and> map_option sint (value_of (getTemp ILP32 (sensor scenario_prom scenario_adc)
                                    [9, 9, 9, 9, 9, 9, 9, 9] 3 [])) = Some 2211
   \<and> map_option sint (value_of (getTemp LP64 (sensor scenario_prom scenario_adc)
                                    [9, 9, 9, 9, 9, 9, 9, 9] 3 [])) = Some 2211
   \<and> temperature_spec 8535040 29024 24926 = 5283"
  by code_simp

end
